theory Spec2Isabelle
  imports Main "HOL-Library.Stream"
begin

section \<open>Data model (app/models.py)\<close>

text \<open>
  A grid position is a Python tuple \<open>(x, y)\<close> of unbounded integers.
\<close>

type_synonym pos = "int \<times> int"

text \<open>
  \<open>Intersection.light_state\<close> is a dict that carries exactly the two keys \<open>'NS'\<close> and
  \<open>'EW'\<close> (constructor default and docstring), each holding a string; it is a record with
  one string field per key. The values stay strings, because the code compares them with
  \<open>'green'\<close> and treats everything else alike.
\<close>

record light_state =
  NS :: string
  EW :: string

record Intersection =
  position :: pos
  light_state :: light_state
  cycle_length :: int
  timer :: int

text \<open>\<open>Intersection.__init__(position, initial_state=None, cycle_length=5)\<close>\<close>

definition Intersection_init :: "pos \<Rightarrow> light_state option \<Rightarrow> int \<Rightarrow> Intersection" where
  "Intersection_init p initial_state cl =
     \<lparr> position = p,
       light_state = (case initial_state of
                        None \<Rightarrow> \<lparr> NS = ''green'', EW = ''red'' \<rparr>
                      | Some d \<Rightarrow> d),
       cycle_length = cl,
       timer = 0 \<rparr>"

text \<open>\<open>Intersection.update_light\<close>: the object is mutated in place; the model returns it.\<close>

definition update_light :: "Intersection \<Rightarrow> Intersection" where
  "update_light i =
     (let i1 = i \<lparr> timer := timer i + 1 \<rparr> in
      if timer i1 \<ge> cycle_length i1 then
        (if NS (light_state i1) = ''green''
         then i1 \<lparr> light_state := \<lparr> NS = ''red'', EW = ''green'' \<rparr>, timer := 0 \<rparr>
         else i1 \<lparr> light_state := \<lparr> NS = ''green'', EW = ''red'' \<rparr>, timer := 0 \<rparr>)
      else i1)"

text \<open>\<open>Intersection.is_green(direction)\<close>\<close>

definition is_green :: "Intersection \<Rightarrow> string \<Rightarrow> bool" where
  "is_green i direction =
     (if direction = ''N'' \<or> direction = ''S'' then NS (light_state i) = ''green''
      else if direction = ''E'' \<or> direction = ''W'' then EW (light_state i) = ''green''
      else False)"

text \<open>
  The property of a light state that the comment in \<open>__init__\<close> asks for
  (``Only one can be green at a time''): one axis green, the other red.
\<close>

definition one_green :: "light_state \<Rightarrow> bool" where
  "one_green d \<longleftrightarrow>
     (NS d = ''green'' \<and> EW d = ''red'') \<or> (NS d = ''red'' \<and> EW d = ''green'')"

text \<open>
  \<open>Car\<close>: the constructor stores its arguments, with \<open>path or []\<close> for the path. The
  field \<open>id\<close> is named \<open>car_id\<close>, after the constructor's parameter.
\<close>

record Car =
  car_id :: int
  position :: pos
  direction :: string
  destination :: "pos option"
  path :: "pos list"

definition Car_init :: "int \<Rightarrow> pos \<Rightarrow> string \<Rightarrow> Car" where
  "Car_init i p d =
     \<lparr> car_id = i, position = p, direction = d, destination = None, path = [] \<rparr>"

text \<open>\<open>Car.move\<close>: a direction that is none of the four leaves the position as it is.\<close>

definition move :: "Car \<Rightarrow> Car" where
  "move car =
     (let (x, y) = position car in
      if direction car = ''N'' then car \<lparr> position := (x, y - 1) \<rparr>
      else if direction car = ''S'' then car \<lparr> position := (x, y + 1) \<rparr>
      else if direction car = ''E'' then car \<lparr> position := (x + 1, y) \<rparr>
      else if direction car = ''W'' then car \<lparr> position := (x - 1, y) \<rparr>
      else car)"

text \<open>\<open>RoadNetwork\<close>: the constructor leaves \<open>road_cells\<close> empty.\<close>

record RoadNetwork =
  rn_grid_size :: int
  road_cells :: "pos set"

definition RoadNetwork_init :: "int \<Rightarrow> RoadNetwork" where
  "RoadNetwork_init g = \<lparr> rn_grid_size = g, road_cells = {} \<rparr>"

definition is_road :: "RoadNetwork \<Rightarrow> pos \<Rightarrow> bool" where
  "is_road rn p \<longleftrightarrow> p \<in> road_cells rn"

definition get_neighbors :: "RoadNetwork \<Rightarrow> pos \<Rightarrow> pos list" where
  "get_neighbors rn p = []"

section \<open>The simulator (app/simulator.py)\<close>

text \<open>
  \<open>Simulator\<close>: \<open>intersections\<close> is a dict from positions to \<open>Intersection\<close> objects
  (each object under one key), \<open>cars\<close> a list of \<open>Car\<close> objects (each object once).
\<close>

record Simulator =
  grid_size :: int
  time_step :: int
  cars :: "Car list"
  intersections :: "pos \<rightharpoonup> Intersection"
  road_network :: RoadNetwork

text \<open>\<open>Simulator._get_next_position\<close>\<close>

definition get_next_position :: "Car \<Rightarrow> pos" where
  "get_next_position car =
     (let (x, y) = position car in
      if direction car = ''N'' then (x, y - 1)
      else if direction car = ''S'' then (x, y + 1)
      else if direction car = ''E'' then (x + 1, y)
      else if direction car = ''W'' then (x - 1, y)
      else (x, y))"

text \<open>\<open>Simulator._in_bounds\<close>\<close>

definition in_bounds :: "Simulator \<Rightarrow> pos \<Rightarrow> bool" where
  "in_bounds s p \<longleftrightarrow>
     (let (x, y) = p in 0 \<le> x \<and> x < grid_size s \<and> 0 \<le> y \<and> y < grid_size s)"

text \<open>
  The collision test of \<open>update\<close>:
  \<open>next_pos in new_positions or any(other.position == next_pos for other in self.cars)\<close>.
\<close>

definition collision :: "Car list \<Rightarrow> pos set \<Rightarrow> pos \<Rightarrow> bool" where
  "collision cs new_positions next_pos \<longleftrightarrow>
     next_pos \<in> new_positions \<or> list_ex (\<lambda>other. position other = next_pos) cs"

text \<open>
  The body of the loop \<open>for car in self.cars\<close> of \<open>update\<close>, for the car at index \<open>i\<close>.
  The loop state is the list of cars (the objects are mutated in place) and the set
  \<open>new_positions\<close>; each \<open>continue\<close> leaves it unchanged.
\<close>

definition step_car :: "Simulator \<Rightarrow> nat \<Rightarrow> Car list \<times> pos set \<Rightarrow> Car list \<times> pos set" where
  "step_car s i st =
     (let (cs, new_positions) = st;
          car = cs ! i;
          next_pos = get_next_position car
      in if \<not> in_bounds s next_pos then st
         else if (case intersections s next_pos of
                    None \<Rightarrow> False
                  | Some intersection \<Rightarrow> \<not> is_green intersection (direction car)) then st
         else if collision cs new_positions next_pos then st
         else (let car' = move car
               in (cs[i := car'], insert (position car') new_positions)))"

text \<open>
  The three checks of the loop body taken together: the car is moved exactly when its
  candidate position passes all of them (lemma \<open>step_car_eq\<close>).
\<close>

definition admissible :: "Simulator \<Rightarrow> Car list \<times> pos set \<Rightarrow> Car \<Rightarrow> bool" where
  "admissible s st car \<longleftrightarrow>
     in_bounds s (get_next_position car)
     \<and> (case intersections s (get_next_position car) of
          None \<Rightarrow> True
        | Some intersection \<Rightarrow> is_green intersection (direction car))
     \<and> \<not> collision (fst st) (snd st) (get_next_position car)"

text \<open>
  The loop over the first \<open>k\<close> cars, from the start of the pass. The index runs over
  \<open>[0..<length (cars s)]\<close>, so \<open>cs ! i\<close> is always read in range.
\<close>

definition pass :: "Simulator \<Rightarrow> nat \<Rightarrow> Car list \<times> pos set" where
  "pass s k = fold (step_car s) [0..<k] (cars s, {})"

text \<open>The first loop of \<open>update\<close>: every intersection's light is updated.\<close>

definition update_lights :: "Simulator \<Rightarrow> Simulator" where
  "update_lights s =
     s \<lparr> intersections := (\<lambda>p. map_option update_light (intersections s p)) \<rparr>"

text \<open>\<open>Simulator.update\<close>\<close>

definition update :: "Simulator \<Rightarrow> Simulator" where
  "update s =
     (let s1 = s \<lparr> time_step := time_step s + 1 \<rparr>;
          s2 = update_lights s1
      in s2 \<lparr> cars := fst (pass s2 (length (cars s2))) \<rparr>)"

text \<open>\<open>Simulator.find_path\<close>: the body is \<open>return []\<close>.\<close>

definition find_path :: "Simulator \<Rightarrow> pos \<Rightarrow> pos \<Rightarrow> pos list" where
  "find_path s start goal = []"

section \<open>Construction (Simulator.__init__)\<close>

text \<open>
  The module-level generator of \<open>random\<close> is a stream of raw draws, passed explicitly;
  every call consumes one draw. \<open>random.randint(a, b)\<close> raises \<open>ValueError\<close> on an empty
  range and otherwise returns a value of \<open>[a, b]\<close>, each of them for some draw;
  \<open>random.choice(xs)\<close> returns an element of a non-empty \<open>xs\<close>.
\<close>

datatype error = ValueError

definition randint :: "int \<Rightarrow> int \<Rightarrow> nat \<Rightarrow> error + int" where
  "randint a b r = (if a > b then Inl ValueError else Inr (a + int r mod (b - a + 1)))"

definition choice :: "'a list \<Rightarrow> nat \<Rightarrow> 'a" where
  "choice xs r = xs ! (r mod length xs)"

text \<open>\<open>range(0, grid_size, 3)\<close>\<close>

definition range3 :: "int \<Rightarrow> int list" where
  "range3 g = map (\<lambda>k. 3 * int k) [0..<nat ((g + 2) div 3)]"

text \<open>The two nested \<open>for\<close> statements that fill \<open>self.intersections\<close>.\<close>

definition place_intersections :: "int \<Rightarrow> int \<Rightarrow> (pos \<rightharpoonup> Intersection)" where
  "place_intersections g cl =
     fold (\<lambda>x m. fold (\<lambda>y m. m((x, y) \<mapsto> Intersection_init (x, y) None cl)) (range3 g) m)
          (range3 g) Map.empty"

text \<open>
  The loop \<open>while True\<close> that draws a position until it is free. It need not end:
  \<open>None\<close> is ``does not return''.
\<close>

partial_function (option) place_loop ::
  "int \<Rightarrow> (pos \<rightharpoonup> Intersection) \<Rightarrow> Car list \<Rightarrow> nat stream
     \<Rightarrow> (error + pos \<times> nat stream) option" where
  "place_loop g ints cs rng =
     (case randint 0 (g - 1) (shd rng) of
        Inl e \<Rightarrow> Some (Inl e)
      | Inr x \<Rightarrow>
          (case randint 0 (g - 1) (shd (stl rng)) of
             Inl e \<Rightarrow> Some (Inl e)
           | Inr y \<Rightarrow>
               if ints (x, y) = None \<and> list_all (\<lambda>car. position car \<noteq> (x, y)) cs
               then Some (Inr ((x, y), stl (stl rng)))
               else place_loop g ints cs (stl (stl rng))))"

text \<open>The loop \<open>for i in range(num_cars)\<close>, over the list of the remaining ids.\<close>

fun place_cars ::
  "int \<Rightarrow> (pos \<rightharpoonup> Intersection) \<Rightarrow> int list \<Rightarrow> Car list \<Rightarrow> nat stream
     \<Rightarrow> (error + Car list) option" where
  "place_cars g ints [] cs rng = Some (Inr cs)"
| "place_cars g ints (i # ids) cs rng =
     (case place_loop g ints cs rng of
        None \<Rightarrow> None
      | Some (Inl e) \<Rightarrow> Some (Inl e)
      | Some (Inr (p, rng1)) \<Rightarrow>
          place_cars g ints ids
            (cs @ [Car_init i p (choice [''N'', ''S'', ''E'', ''W''] (shd rng1))])
            (stl rng1))"

text \<open>The engine state that the constructor returns once the cars \<open>cs\<close> are placed.\<close>

definition new_simulator :: "int \<Rightarrow> int \<Rightarrow> Car list \<Rightarrow> Simulator" where
  "new_simulator g cl cs =
     \<lparr> grid_size = g, time_step = 0, cars = cs,
       intersections = place_intersections g cl,
       road_network = RoadNetwork_init g \<rparr>"

text \<open>
  \<open>Simulator.__init__(grid_size, num_cars, intersection_cycle)\<close>; the defaults of the
  first two come from \<open>app.config\<close> and are arguments here.
\<close>

definition Simulator_init :: "int \<Rightarrow> int \<Rightarrow> int \<Rightarrow> nat stream \<Rightarrow> (error + Simulator) option" where
  "Simulator_init g num_cars cl rng =
     (case place_cars g (place_intersections g cl) (map int [0..<nat num_cars]) [] rng of
        None \<Rightarrow> None
      | Some (Inl e) \<Rightarrow> Some (Inl e)
      | Some (Inr cs) \<Rightarrow> Some (Inr (new_simulator g cl cs)))"

section \<open>Predicates that state the claims\<close>

text \<open>
  The collision check in the words of the specification, for comparison with
  \<open>collision\<close>: the candidate is already claimed by a car that moved earlier in the pass,
  or is the current position of another car not yet evaluated (the cars after index \<open>i\<close>).
\<close>

definition spec_collision_check :: "Car list \<Rightarrow> pos set \<Rightarrow> nat \<Rightarrow> pos \<Rightarrow> bool" where
  "spec_collision_check cs new_positions i next_pos \<longleftrightarrow>
     next_pos \<in> new_positions
     \<or> list_ex (\<lambda>j. position (cs ! j) = next_pos) [Suc i..<length cs]"

text \<open>
  The cells of the grid that hold no intersection: the cells available to cars when
  construction starts.
\<close>

definition free_cells :: "int \<Rightarrow> (pos \<rightharpoonup> Intersection) \<Rightarrow> pos list" where
  "free_cells g ints =
     filter (\<lambda>p. ints p = None) (List.product (map int [0..<nat g]) (map int [0..<nat g]))"

section \<open>The traffic light\<close>

lemma update_light_cycle_length [simp]: "cycle_length (update_light i) = cycle_length i"
  by (simp add: update_light_def Let_def)

lemma funpow_update_light_cycle_length [simp]:
  "cycle_length ((update_light ^^ n) i) = cycle_length i"
  by (induction n) simp_all

lemma update_light_position [simp]:
  "Intersection.position (update_light i) = Intersection.position i"
  by (simp add: update_light_def Let_def)

lemma update_light_one_green:
  "one_green (light_state i) \<Longrightarrow> one_green (light_state (update_light i))"
  by (simp add: update_light_def Let_def one_green_def)

lemma update_light_timer:
  "timer (update_light i) = (if cycle_length i \<le> timer i + 1 then 0 else timer i + 1)"
  by (simp add: update_light_def Let_def)

lemma update_light_state:
  assumes "one_green (light_state i)"
  shows "light_state (update_light i) =
           (if cycle_length i \<le> timer i + 1
            then \<lparr> NS = EW (light_state i), EW = NS (light_state i) \<rparr>
            else light_state i)"
  using assms by (auto simp: update_light_def Let_def one_green_def)

lemma funpow_update_light_one_green:
  "one_green (light_state i) \<Longrightarrow> one_green (light_state ((update_light ^^ n) i))"
  by (induction n) (simp_all add: update_light_one_green)

lemma funpow_update_light_timer:
  assumes "1 \<le> cycle_length i" and "timer i = 0"
  shows "timer ((update_light ^^ n) i) = int (n mod nat (cycle_length i))"
proof (induction n)
  case 0
  show ?case using assms by simp
next
  case (Suc n)
  let ?c = "nat (cycle_length i)"
  have c: "0 < ?c" "int ?c = cycle_length i" using assms by simp_all
  have lt: "n mod ?c < ?c" using c by simp
  show ?case
  proof (cases "Suc (n mod ?c) = ?c")
    case True
    then have "Suc n mod ?c = 0" by (metis mod_Suc)
    moreover from True have "cycle_length i \<le> int (n mod ?c) + 1" using c by linarith
    ultimately show ?thesis using Suc by (simp add: update_light_timer)
  next
    case False
    then have "Suc n mod ?c = Suc (n mod ?c)" by (metis mod_Suc)
    moreover from False lt have "\<not> cycle_length i \<le> int (n mod ?c) + 1" using c by linarith
    ultimately show ?thesis using Suc by (simp add: update_light_timer)
  qed
qed

text \<open>
  C4. An intersection built by the constructor with a cycle length of at least 1 and a
  light state with one axis green (the default, NS green and EW red, when none is given):
  the call number \<open>n + 1\<close> of \<open>update_light\<close> swaps the two axes exactly when \<open>n + 1\<close> is a
  multiple of the cycle length and leaves the light state unchanged otherwise; the timer
  is 0 after each swap (it counts the calls since the last one); and the default state is
  NS green, EW red.
\<close>

theorem light_flips_every_cycle_length:
  assumes "1 \<le> cl"
    and "initial_state = None \<or> (\<exists>d. initial_state = Some d \<and> one_green d)"
  shows "light_state ((update_light ^^ Suc n) (Intersection_init p initial_state cl)) =
           (let before = light_state ((update_light ^^ n) (Intersection_init p initial_state cl))
            in if Suc n mod nat cl = 0 then \<lparr> NS = EW before, EW = NS before \<rparr> else before)
         \<and> timer ((update_light ^^ n) (Intersection_init p initial_state cl)) = int (n mod nat cl)
         \<and> light_state (Intersection_init p None cl) = \<lparr> NS = ''green'', EW = ''red'' \<rparr>"
proof -
  let ?i = "Intersection_init p initial_state cl"
  let ?c = "nat cl"
  have cl: "cycle_length ?i = cl" and t0: "timer ?i = 0"
    by (simp_all add: Intersection_init_def)
  have og: "one_green (light_state ?i)"
    using assms(2) by (auto simp: Intersection_init_def one_green_def)
  have tm: "timer ((update_light ^^ k) ?i) = int (k mod ?c)" for k
    using funpow_update_light_timer [of ?i k] assms(1) cl t0 by simp
  have c: "0 < ?c" "int ?c = cl" using assms(1) by simp_all
  have lt: "n mod ?c < ?c" using c by simp
  have iff: "cl \<le> int (n mod ?c) + 1 \<longleftrightarrow> Suc n mod ?c = 0"
  proof (cases "Suc (n mod ?c) = ?c")
    case True
    then have "Suc n mod ?c = 0" by (metis mod_Suc)
    moreover from True have "cl \<le> int (n mod ?c) + 1" using c by linarith
    ultimately show ?thesis by simp
  next
    case False
    then have "Suc n mod ?c = Suc (n mod ?c)" by (metis mod_Suc)
    moreover from False lt have "\<not> cl \<le> int (n mod ?c) + 1" using c by linarith
    ultimately show ?thesis by simp
  qed
  have "light_state ((update_light ^^ Suc n) ?i) =
          (if Suc n mod ?c = 0
           then \<lparr> NS = EW (light_state ((update_light ^^ n) ?i)),
                  EW = NS (light_state ((update_light ^^ n) ?i)) \<rparr>
           else light_state ((update_light ^^ n) ?i))"
    using update_light_state [OF funpow_update_light_one_green [OF og, of n]] tm [of n] cl iff
    by simp
  moreover have "light_state (Intersection_init p None cl) = \<lparr> NS = ''green'', EW = ''red'' \<rparr>"
    by (simp add: Intersection_init_def)
  ultimately show ?thesis using tm [of n] by (simp add: Let_def)
qed

theorem light_flips_every_cycle_length_witness:
  "(1::int) \<le> 2 \<and>
   light_state ((update_light ^^ Suc 1) (Intersection_init (0, 0) None 2)) =
     \<lparr> NS = ''red'', EW = ''green'' \<rparr> \<and>
   light_state ((update_light ^^ 1) (Intersection_init (0, 0) None 2)) =
     \<lparr> NS = ''green'', EW = ''red'' \<rparr> \<and>
   timer ((update_light ^^ 1) (Intersection_init (0, 0) None 2)) = 1"
proof -
  have h: "(1::int) \<le> 2" by simp
  have "light_state ((update_light ^^ 1) (Intersection_init (0, 0) None 2)) =
          \<lparr> NS = ''green'', EW = ''red'' \<rparr>"
    by (simp add: Intersection_init_def update_light_def Let_def)
  then show ?thesis
    using light_flips_every_cycle_length [OF h, of None 1 "(0, 0)"]
    by (simp add: Let_def)
qed

text \<open>
  C5. An intersection started in the default state has, after any number of calls to
  \<open>update_light\<close> and whatever its cycle length, one axis green and the other red.
\<close>

theorem default_intersection_one_green:
  "one_green (light_state ((update_light ^^ n) (Intersection_init p None cl)))"
proof -
  have "one_green (light_state (Intersection_init p None cl))"
    by (simp add: Intersection_init_def one_green_def)
  then show ?thesis by (rule funpow_update_light_one_green)
qed

section \<open>One pass over the cars\<close>

lemma get_next_position_cases:
  "get_next_position car =
     (if direction car = ''N'' then (fst (position car), snd (position car) - 1)
      else if direction car = ''S'' then (fst (position car), snd (position car) + 1)
      else if direction car = ''E'' then (fst (position car) + 1, snd (position car))
      else if direction car = ''W'' then (fst (position car) - 1, snd (position car))
      else position car)"
  by (simp add: get_next_position_def split: prod.splits)

lemma position_move: "position (move car) = get_next_position car"
  by (simp add: move_def get_next_position_def split: prod.splits)

lemma direction_move [simp]: "direction (move car) = direction car"
  by (simp add: move_def split: prod.splits)

lemma car_id_move [simp]: "car_id (move car) = car_id car"
  by (simp add: move_def split: prod.splits)

lemma collision_iff:
  "collision cs np p \<longleftrightarrow> p \<in> np \<or> p \<in> position ` set cs"
  by (auto simp: collision_def list_ex_iff)

lemma step_car_eq:
  "step_car s i st =
     (if admissible s st (fst st ! i)
      then ((fst st)[i := move (fst st ! i)],
            insert (get_next_position (fst st ! i)) (snd st))
      else st)"
  by (cases st)
     (auto simp: step_car_def admissible_def Let_def position_move split: option.splits)

lemma length_step_car [simp]: "length (fst (step_car s i st)) = length (fst st)"
  by (simp add: step_car_eq)

lemma nth_step_car_other: "j \<noteq> i \<Longrightarrow> fst (step_car s i st) ! j = fst st ! j"
  by (simp add: step_car_eq)

lemma length_fold_step_car [simp]:
  "length (fst (fold (step_car s) js st)) = length (fst st)"
  by (induction js arbitrary: st) simp_all

lemma nth_fold_step_car_other:
  "j \<notin> set js \<Longrightarrow> fst (fold (step_car s) js st) ! j = fst st ! j"
  by (induction js arbitrary: st) (simp_all add: nth_step_car_other)

lemma pass_Suc: "pass s (Suc k) = step_car s k (pass s k)"
  by (simp add: pass_def)

lemma length_pass [simp]: "length (fst (pass s k)) = length (cars s)"
  by (simp add: pass_def)

lemma pass_nth_later: "k \<le> j \<Longrightarrow> fst (pass s k) ! j = cars s ! j"
  by (simp add: pass_def nth_fold_step_car_other)

lemma pass_nth_earlier:
  assumes "i < k"
  shows "fst (pass s k) ! i = fst (pass s (Suc i)) ! i"
proof -
  have "[0..<k] = [0..<Suc i] @ [Suc i..<k]"
    using assms by (metis Suc_leI le0 upt_add_eq_append le_add_diff_inverse)
  then have "pass s k = fold (step_car s) [Suc i..<k] (pass s (Suc i))"
    by (simp add: pass_def del: upt_Suc)
  then show ?thesis
    by (simp add: nth_fold_step_car_other)
qed

text \<open>The car at index \<open>i\<close> after the whole pass is the one its own iteration left.\<close>

lemma pass_nth_final:
  assumes "i < length (cars s)"
  shows "fst (pass s (length (cars s))) ! i = fst (step_car s i (pass s i)) ! i"
  using pass_nth_earlier [OF assms] by (simp add: pass_Suc)

lemma cars_update:
  "cars (update s) =
     fst (pass (update_lights (s \<lparr> time_step := time_step s + 1 \<rparr>)) (length (cars s)))"
  by (simp add: update_def Let_def update_lights_def)

lemma length_cars_update [simp]: "length (cars (update s)) = length (cars s)"
  by (simp add: cars_update update_lights_def)

lemma grid_size_update [simp]: "grid_size (update s) = grid_size s"
  by (simp add: update_def Let_def update_lights_def)

lemma distinct_step_car:
  assumes "distinct (map position (fst st))"
  shows "distinct (map position (fst (step_car s i st)))"
proof (cases "admissible s st (fst st ! i)")
  case False
  then show ?thesis using assms by (simp add: step_car_eq)
next
  case True
  then have "get_next_position (fst st ! i) \<notin> set (map position (fst st))"
    by (auto simp: admissible_def collision_iff)
  then have "distinct ((map position (fst st))[i := get_next_position (fst st ! i)])"
    using assms by (intro distinct_list_update) auto
  then show ?thesis
    using True by (simp add: step_car_eq map_update position_move)
qed

lemma distinct_pass:
  "distinct (map position (cars s)) \<Longrightarrow> distinct (map position (fst (pass s k)))"
  by (induction k) (simp_all add: pass_Suc distinct_step_car, simp add: pass_def)

text \<open>
  C1. If the cars of an engine state are at pairwise distinct positions, they are at
  pairwise distinct positions after one call of \<open>update\<close>.
\<close>

theorem update_keeps_positions_distinct:
  assumes "distinct (map position (cars s))"
  shows "distinct (map position (cars (update s)))"
proof -
  let ?s2 = "update_lights (s \<lparr> time_step := time_step s + 1 \<rparr>)"
  have "cars ?s2 = cars s" by (simp add: update_lights_def)
  then have "distinct (map position (fst (pass ?s2 (length (cars s)))))"
    using assms distinct_pass [of ?s2] by simp
  then show ?thesis by (simp add: cars_update)
qed

section \<open>The intersections of a new engine\<close>

lemma fold_inner_apply:
  "fold (\<lambda>y m. m((x, y) \<mapsto> f x y)) ys m (a, b) =
     (if a = x \<and> b \<in> set ys then Some (f x b) else m (a, b))"
  by (induction ys arbitrary: m) auto

lemma fold_outer_apply:
  "fold (\<lambda>x m. fold (\<lambda>y m. m((x, y) \<mapsto> f x y)) ys m) xs m (a, b) =
     (if a \<in> set xs \<and> b \<in> set ys then Some (f a b) else m (a, b))"
  by (induction xs arbitrary: m) (auto simp: fold_inner_apply)

lemma set_range3: "set (range3 g) = {x. 0 \<le> x \<and> x < g \<and> x mod 3 = 0}"
proof (intro set_eqI iffI)
  fix x assume "x \<in> set (range3 g)"
  then obtain k where k: "x = 3 * int k" "k < nat ((g + 2) div 3)"
    by (auto simp: range3_def)
  then have "int k < (g + 2) div 3" by linarith
  then have "3 * int k < g" by linarith
  with k show "x \<in> {x. 0 \<le> x \<and> x < g \<and> x mod 3 = 0}" by simp
next
  fix x assume "x \<in> {x. 0 \<le> x \<and> x < g \<and> x mod 3 = 0}"
  then have x: "0 \<le> x" "x < g" "x mod 3 = 0" by simp_all
  have "x = 3 * (x div 3)" using x by presburger
  moreover have "0 \<le> x div 3" using x by simp
  ultimately have "x = 3 * int (nat (x div 3))" by simp
  moreover have "x div 3 < (g + 2) div 3" using x by presburger
  then have "nat (x div 3) < nat ((g + 2) div 3)" using \<open>0 \<le> x div 3\<close> by linarith
  ultimately show "x \<in> set (range3 g)"
    unfolding range3_def by (metis (no_types, lifting) atLeast0LessThan image_eqI lessThan_iff list.set_map set_upt)
qed

lemma place_intersections_apply:
  "place_intersections g cl (x, y) =
     (if 0 \<le> x \<and> x < g \<and> x mod 3 = 0 \<and> 0 \<le> y \<and> y < g \<and> y mod 3 = 0
      then Some (Intersection_init (x, y) None cl) else None)"
  by (simp add: place_intersections_def fold_outer_apply set_range3)

section \<open>One call of \<open>update\<close>\<close>

lemma in_bounds_update_lights [simp]:
  "in_bounds (update_lights s) p = in_bounds s p"
  by (simp add: in_bounds_def update_lights_def)

lemma step_car_cong:
  assumes "grid_size s = grid_size s'" "intersections s = intersections s'"
  shows "step_car s = step_car s'"
  by (intro ext) (simp only: step_car_def in_bounds_def assms)

lemma pass_time_step [simp]:
  "pass (update_lights (s \<lparr> time_step := t \<rparr>)) k = pass (update_lights s) k"
proof -
  have "step_car (update_lights (s \<lparr> time_step := t \<rparr>)) = step_car (update_lights s)"
    by (rule step_car_cong) (simp_all add: update_lights_def)
  then show ?thesis by (simp add: pass_def update_lights_def)
qed

lemma cars_update_pass: "cars (update s) = fst (pass (update_lights s) (length (cars s)))"
  by (simp add: cars_update)

lemma intersections_update: "intersections (update s) = intersections (update_lights s)"
  by (simp add: update_def Let_def update_lights_def)

lemma cars_update_lights [simp]: "cars (update_lights s) = cars s"
  by (simp add: update_lights_def)

lemma grid_size_update_lights [simp]: "grid_size (update_lights s) = grid_size s"
  by (simp add: update_lights_def)

text \<open>The car at index \<open>i\<close> after \<open>update\<close>.\<close>

lemma update_nth:
  assumes "i < length (cars s)"
  shows "cars (update s) ! i =
     (if admissible (update_lights s) (pass (update_lights s) i) (cars s ! i)
      then move (cars s ! i) else cars s ! i)"
proof -
  let ?s2 = "update_lights s"
  have i: "i < length (cars ?s2)" using assms by simp
  have cur: "fst (pass ?s2 i) ! i = cars s ! i"
    using pass_nth_later [of i i ?s2] by simp
  have "cars (update s) ! i = fst (step_car ?s2 i (pass ?s2 i)) ! i"
    using pass_nth_final [OF i] by (simp add: cars_update_pass)
  also have "\<dots> = (if admissible ?s2 (pass ?s2 i) (cars s ! i)
      then move (cars s ! i) else cars s ! i)"
    using assms by (simp add: step_car_eq cur)
  finally show ?thesis .
qed

text \<open>
  C8. A car whose candidate position lies outside \<open>[0, grid_size)\<close> on either axis is left
  as it was by \<open>update\<close>: same position (so not wrapped), and the list of cars keeps its
  length (so not removed).
\<close>

theorem out_of_bounds_stays:
  assumes "i < length (cars s)"
    and "\<not> in_bounds s (get_next_position (cars s ! i))"
  shows "cars (update s) ! i = cars s ! i \<and> length (cars (update s)) = length (cars s)"
  using assms by (simp add: update_nth admissible_def)

lemma get_next_position_not_cardinal:
  "direction c \<noteq> ''N'' \<Longrightarrow> direction c \<noteq> ''S'' \<Longrightarrow> direction c \<noteq> ''E'' \<Longrightarrow>
   direction c \<noteq> ''W'' \<Longrightarrow> get_next_position c = position c"
  by (simp add: get_next_position_cases)

lemma collision_own_position:
  assumes "i < length (cars s)"
  shows "collision (fst (pass s i)) (snd (pass s i)) (position (cars s ! i))"
proof -
  have "fst (pass s i) ! i = cars s ! i" by (simp add: pass_nth_later)
  moreover have "i < length (fst (pass s i))" using assms by simp
  ultimately have "cars s ! i \<in> set (fst (pass s i))" by (metis nth_mem)
  then show ?thesis by (auto simp: collision_iff)
qed

text \<open>
  C3. Let the candidate position of car \<open>i\<close> be a controlled cell, \<open>x\<close> its intersection
  with the light as this call of \<open>update\<close> has set it. If the light is not green for the
  car's direction, the car is left as it was. If it is green, the candidate is in bounds and
  the collision check passes when the car is evaluated, the car's direction is one of the
  four and its new position is one cell further along it.
\<close>

theorem light_gates_move:
  assumes "i < length (cars s)"
    and "intersections (update s) (get_next_position (cars s ! i)) = Some x"
  shows "(\<not> is_green x (direction (cars s ! i)) \<longrightarrow> cars (update s) ! i = cars s ! i)
       \<and> (is_green x (direction (cars s ! i))
            \<and> in_bounds s (get_next_position (cars s ! i))
            \<and> \<not> collision (fst (pass (update_lights s) i)) (snd (pass (update_lights s) i))
                  (get_next_position (cars s ! i))
          \<longrightarrow> (direction (cars s ! i) = ''N'' \<and> position (cars (update s) ! i) =
                   (fst (position (cars s ! i)), snd (position (cars s ! i)) - 1)
               \<or> direction (cars s ! i) = ''S'' \<and> position (cars (update s) ! i) =
                   (fst (position (cars s ! i)), snd (position (cars s ! i)) + 1)
               \<or> direction (cars s ! i) = ''E'' \<and> position (cars (update s) ! i) =
                   (fst (position (cars s ! i)) + 1, snd (position (cars s ! i)))
               \<or> direction (cars s ! i) = ''W'' \<and> position (cars (update s) ! i) =
                   (fst (position (cars s ! i)) - 1, snd (position (cars s ! i)))))"
proof -
  let ?c = "cars s ! i"
  let ?st = "pass (update_lights s) i"
  have x: "intersections (update_lights s) (get_next_position ?c) = Some x"
    using assms(2) by (simp add: intersections_update)
  have red: "\<not> is_green x (direction ?c) \<Longrightarrow> cars (update s) ! i = ?c"
    using assms(1) x by (simp add: update_nth admissible_def)
  have green: "position (cars (update s) ! i) = get_next_position ?c"
    and card: "direction ?c = ''N'' \<or> direction ?c = ''S'' \<or> direction ?c = ''E'' \<or> direction ?c = ''W''"
    if g: "is_green x (direction ?c)" "in_bounds s (get_next_position ?c)"
      "\<not> collision (fst ?st) (snd ?st) (get_next_position ?c)"
  proof -
    have "admissible (update_lights s) ?st ?c"
      using g x by (simp add: admissible_def)
    then show "position (cars (update s) ! i) = get_next_position ?c"
      using assms(1) by (simp add: update_nth position_move)
    show "direction ?c = ''N'' \<or> direction ?c = ''S'' \<or> direction ?c = ''E'' \<or> direction ?c = ''W''"
      using g(1) by (auto simp: is_green_def split: if_splits)
  qed
  show ?thesis
  proof (intro conjI impI)
    assume "\<not> is_green x (direction ?c)"
    then show "cars (update s) ! i = ?c" by (rule red)
  next
    assume a: "is_green x (direction ?c) \<and> in_bounds s (get_next_position ?c)
               \<and> \<not> collision (fst ?st) (snd ?st) (get_next_position ?c)"
    then have p: "position (cars (update s) ! i) = get_next_position ?c"
      using green by blast
    from a have "direction ?c = ''N'' \<or> direction ?c = ''S'' \<or> direction ?c = ''E''
                 \<or> direction ?c = ''W''"
      using card by blast
    then show "direction ?c = ''N'' \<and> position (cars (update s) ! i) =
                   (fst (position ?c), snd (position ?c) - 1)
               \<or> direction ?c = ''S'' \<and> position (cars (update s) ! i) =
                   (fst (position ?c), snd (position ?c) + 1)
               \<or> direction ?c = ''E'' \<and> position (cars (update s) ! i) =
                   (fst (position ?c) + 1, snd (position ?c))
               \<or> direction ?c = ''W'' \<and> position (cars (update s) ! i) =
                   (fst (position ?c) - 1, snd (position ?c))"
      unfolding p by (auto simp: get_next_position_cases)
  qed
qed

lemma update_not_cardinal:
  assumes "i < length (cars s)"
    and "direction (cars s ! i) \<notin> {''N'', ''S'', ''E'', ''W''}"
  shows "cars (update s) ! i = cars s ! i"
proof -
  have "get_next_position (cars s ! i) = position (cars s ! i)"
    using assms(2) by (simp add: get_next_position_not_cardinal)
  moreover have "collision (fst (pass (update_lights s) i)) (snd (pass (update_lights s) i))
      (position (cars s ! i))"
    using collision_own_position [of i "update_lights s"] assms(1) by simp
  ultimately show ?thesis
    using assms(1) by (simp add: update_nth admissible_def)
qed

lemma length_cars_funpow_update [simp]: "length (cars ((update ^^ n) s)) = length (cars s)"
  by (induction n) simp_all

text \<open>
  C10. A car whose direction is none of \<open>'N'\<close>, \<open>'S'\<close>, \<open>'E'\<close>, \<open>'W'\<close> is left as it was
  by any number of calls of \<open>update\<close>: its candidate position is its own position, and the
  collision check, which tests every car and so the car itself, rejects that position.
\<close>

theorem not_cardinal_never_moves:
  assumes "i < length (cars s)"
    and "direction (cars s ! i) \<notin> {''N'', ''S'', ''E'', ''W''}"
  shows "cars ((update ^^ n) s) ! i = cars s ! i
       \<and> get_next_position (cars s ! i) = position (cars s ! i)
       \<and> collision (fst (pass (update_lights s) i)) (snd (pass (update_lights s) i))
            (get_next_position (cars s ! i))"
proof -
  have "cars ((update ^^ n) s) ! i = cars s ! i"
  proof (induction n)
    case 0
    show ?case by simp
  next
    case (Suc n)
    have "cars (update ((update ^^ n) s)) ! i = cars ((update ^^ n) s) ! i"
      using assms Suc by (intro update_not_cardinal) simp_all
    then show ?case using Suc by simp
  qed
  moreover have np: "get_next_position (cars s ! i) = position (cars s ! i)"
    using assms(2) by (simp add: get_next_position_not_cardinal)
  moreover have "collision (fst (pass (update_lights s) i)) (snd (pass (update_lights s) i))
      (position (cars s ! i))"
    using collision_own_position [of i "update_lights s"] assms(1) by simp
  ultimately show ?thesis by simp
qed

section \<open>Concrete runs\<close>

text \<open>The definitions that a run on concrete values unfolds.\<close>

lemmas run_simps = new_simulator_def Car_init_def place_intersections_apply
  Intersection_init_def update_light_def update_lights_def update_def pass_def step_car_def
  in_bounds_def get_next_position_def move_def collision_def is_green_def Let_def

theorem update_keeps_positions_distinct_witness:
  "distinct (map position (cars (new_simulator 10 5 [Car_init 0 (2, 0) ''E'', Car_init 1 (3, 1) ''N''])))
   \<and> distinct (map position (cars (update (new_simulator 10 5 [Car_init 0 (2, 0) ''E'', Car_init 1 (3, 1) ''N'']))))"
proof -
  let ?s = "new_simulator 10 5 [Car_init 0 (2, 0) ''E'', Car_init 1 (3, 1) ''N'']"
  have h: "distinct (map position (cars ?s))"
    by (simp add: new_simulator_def Car_init_def)
  show ?thesis
    using update_keeps_positions_distinct [OF h] h by simp
qed

theorem out_of_bounds_stays_witness:
  "0 < length (cars (new_simulator 10 5 [Car_init 0 (0, 1) ''W'']))
   \<and> \<not> in_bounds (new_simulator 10 5 [Car_init 0 (0, 1) ''W''])
         (get_next_position (cars (new_simulator 10 5 [Car_init 0 (0, 1) ''W'']) ! 0))
   \<and> cars (update (new_simulator 10 5 [Car_init 0 (0, 1) ''W''])) ! 0 = Car_init 0 (0, 1) ''W''
   \<and> length (cars (update (new_simulator 10 5 [Car_init 0 (0, 1) ''W'']))) = 1"
proof -
  let ?s = "new_simulator 10 5 [Car_init 0 (0, 1) ''W'']"
  have h1: "0 < length (cars ?s)" by (simp add: new_simulator_def)
  have h2: "\<not> in_bounds ?s (get_next_position (cars ?s ! 0))"
    by (simp add: new_simulator_def Car_init_def in_bounds_def get_next_position_def)
  have c: "cars ?s = [Car_init 0 (0, 1) ''W'']" by (simp add: new_simulator_def)
  show ?thesis
    using out_of_bounds_stays [OF h1 h2] h1 h2 by (simp add: c)
qed

text \<open>
  Two cars before the intersection at \<open>(3, 0)\<close>, whose light is NS green after the first
  call: car 0 heads East and waits, car 1 heads North and enters.
\<close>

theorem light_gates_move_witness:
  "intersections (update (new_simulator 10 5 [Car_init 0 (2, 0) ''E'', Car_init 1 (3, 1) ''N''])) (3, 0) =
     Some \<lparr> Intersection.position = (3, 0), light_state = \<lparr> NS = ''green'', EW = ''red'' \<rparr>,
        cycle_length = 5, timer = 1 \<rparr>
   \<and> get_next_position (cars (new_simulator 10 5 [Car_init 0 (2, 0) ''E'', Car_init 1 (3, 1) ''N'']) ! 0) = (3, 0)
   \<and> \<not> is_green \<lparr> Intersection.position = (3, 0), light_state = \<lparr> NS = ''green'', EW = ''red'' \<rparr>,
        cycle_length = 5, timer = 1 \<rparr> ''E''
   \<and> cars (update (new_simulator 10 5 [Car_init 0 (2, 0) ''E'', Car_init 1 (3, 1) ''N''])) ! 0 = Car_init 0 (2, 0) ''E''
   \<and> get_next_position (cars (new_simulator 10 5 [Car_init 0 (2, 0) ''E'', Car_init 1 (3, 1) ''N'']) ! 1) = (3, 0)
   \<and> is_green \<lparr> Intersection.position = (3, 0), light_state = \<lparr> NS = ''green'', EW = ''red'' \<rparr>,
        cycle_length = 5, timer = 1 \<rparr> ''N''
   \<and> in_bounds (new_simulator 10 5 [Car_init 0 (2, 0) ''E'', Car_init 1 (3, 1) ''N'']) (3, 0)
   \<and> \<not> collision (fst (pass (update_lights (new_simulator 10 5 [Car_init 0 (2, 0) ''E'', Car_init 1 (3, 1) ''N''])) 1))
           (snd (pass (update_lights (new_simulator 10 5 [Car_init 0 (2, 0) ''E'', Car_init 1 (3, 1) ''N''])) 1)) (3, 0)
   \<and> position (cars (update (new_simulator 10 5 [Car_init 0 (2, 0) ''E'', Car_init 1 (3, 1) ''N''])) ! 1) = (3, 0)"
proof -
  let ?s = "new_simulator 10 5 [Car_init 0 (2, 0) ''E'', Car_init 1 (3, 1) ''N'']"
  let ?x = "\<lparr> Intersection.position = (3, 0), light_state = \<lparr> NS = ''green'', EW = ''red'' \<rparr>,
        cycle_length = 5, timer = 1 \<rparr>"
  have l0: "0 < length (cars ?s)" and l1: "1 < length (cars ?s)"
    by (simp_all add: new_simulator_def)
  have c0: "cars ?s ! 0 = Car_init 0 (2, 0) ''E''" and c1: "cars ?s ! 1 = Car_init 1 (3, 1) ''N''"
    by (simp_all add: new_simulator_def)
  have n0: "get_next_position (cars ?s ! 0) = (3, 0)"
    and n1: "get_next_position (cars ?s ! 1) = (3, 0)"
    unfolding c0 c1 by (simp_all add: Car_init_def get_next_position_def)
  have x: "intersections (update ?s) (3, 0) = Some ?x"
    by (simp add: run_simps)
  have x0: "intersections (update ?s) (get_next_position (cars ?s ! 0)) = Some ?x"
    and x1: "intersections (update ?s) (get_next_position (cars ?s ! 1)) = Some ?x"
    using x by (simp_all only: n0 n1)
  have red: "\<not> is_green ?x ''E''" and green: "is_green ?x ''N''"
    by (simp_all add: is_green_def)
  have inb: "in_bounds ?s (3, 0)" by (simp add: new_simulator_def in_bounds_def)
  have free: "\<not> collision (fst (pass (update_lights ?s) 1)) (snd (pass (update_lights ?s) 1)) (3, 0)"
    by (simp add: run_simps)
  have d0: "direction (cars ?s ! 0) = ''E''" and d1: "direction (cars ?s ! 1) = ''N''"
    unfolding c0 c1 by (simp_all add: Car_init_def)
  have p1: "position (cars ?s ! 1) = (3, 1)" unfolding c1 by (simp add: Car_init_def)
  have "cars (update ?s) ! 0 = cars ?s ! 0"
    using light_gates_move [OF l0 x0] red unfolding d0 by blast
  then have "cars (update ?s) ! 0 = Car_init 0 (2, 0) ''E''"
    by (simp only: c0)
  moreover have "position (cars (update ?s) ! 1) = (3, 0)"
    using light_gates_move [OF l1 x1] green inb free unfolding d1 n1 p1 by simp
  ultimately show ?thesis
    using x n0 n1 red green inb free by simp
qed

theorem not_cardinal_never_moves_witness:
  "0 < length (cars (new_simulator 10 5 [Car_init 0 (1, 1) ''X'']))
   \<and> direction (cars (new_simulator 10 5 [Car_init 0 (1, 1) ''X'']) ! 0) \<notin> {''N'', ''S'', ''E'', ''W''}
   \<and> cars ((update ^^ 3) (new_simulator 10 5 [Car_init 0 (1, 1) ''X''])) ! 0 = Car_init 0 (1, 1) ''X''
   \<and> get_next_position (Car_init 0 (1, 1) ''X'') = (1, 1)"
proof -
  let ?s = "new_simulator 10 5 [Car_init 0 (1, 1) ''X'']"
  have h1: "0 < length (cars ?s)" by (simp add: new_simulator_def)
  have h2: "direction (cars ?s ! 0) \<notin> {''N'', ''S'', ''E'', ''W''}"
    by (simp add: new_simulator_def Car_init_def)
  have c: "cars ?s ! 0 = Car_init 0 (1, 1) ''X''" by (simp add: new_simulator_def)
  have p: "position (Car_init 0 (1, 1) ''X'') = (1, 1)" by (simp add: Car_init_def)
  show ?thesis
    using not_cardinal_never_moves [OF h1 h2, of 3] h1 h2 by (simp add: c p)
qed

section \<open>The scenario of one car heading East from \<open>(1, 0)\<close>\<close>

lemma scenario_constructed:
  "Simulator_init 10 1 5 (1 ## 0 ## 2 ## sconst 0) =
     Some (Inr (new_simulator 10 5 [Car_init 0 (1, 0) ''E'']))"
  apply (simp add: Simulator_init_def)
  apply (subst place_loop.simps)
  apply (simp add: randint_def choice_def place_intersections_apply)
  done

text \<open>
  C9, as stated: on the 10 by 10 grid with cycle length 5, the car that starts at \<open>(1, 0)\<close>
  heading East is at \<open>(4, 0)\<close> after three calls of \<open>update\<close>. It is not.
\<close>

theorem scenario_not_at_4_0:
  "position (cars ((update ^^ 3) (new_simulator 10 5 [Car_init 0 (1, 0) ''E''])) ! 0) \<noteq> (4, 0)"
  by (simp add: run_simps eval_nat_numeral)

text \<open>
  C9, amended: the constructor builds this engine (for the draws 1, 0 and East); the car
  advances to \<open>(2, 0)\<close> on the first call and is still there after the second, the third
  and the fourth, held by the light of the intersection at \<open>(3, 0)\<close>, which is NS green
  and EW red, so not green for East, after each of the first four calls; the fifth call
  swaps the light to EW green, and on that call the car enters \<open>(3, 0)\<close>.
\<close>

theorem scenario_held_at_2_0:
  "Simulator_init 10 1 5 (1 ## 0 ## 2 ## sconst 0) =
     Some (Inr (new_simulator 10 5 [Car_init 0 (1, 0) ''E'']))
   \<and> map position (cars (new_simulator 10 5 [Car_init 0 (1, 0) ''E''])) = [(1, 0)]
   \<and> map direction (cars (new_simulator 10 5 [Car_init 0 (1, 0) ''E''])) = [''E'']
   \<and> map position (cars ((update ^^ 1) (new_simulator 10 5 [Car_init 0 (1, 0) ''E'']))) = [(2, 0)]
   \<and> map position (cars ((update ^^ 2) (new_simulator 10 5 [Car_init 0 (1, 0) ''E'']))) = [(2, 0)]
   \<and> map position (cars ((update ^^ 3) (new_simulator 10 5 [Car_init 0 (1, 0) ''E'']))) = [(2, 0)]
   \<and> map position (cars ((update ^^ 4) (new_simulator 10 5 [Car_init 0 (1, 0) ''E'']))) = [(2, 0)]
   \<and> map position (cars ((update ^^ 5) (new_simulator 10 5 [Car_init 0 (1, 0) ''E'']))) = [(3, 0)]
   \<and> map_option light_state (intersections ((update ^^ 1) (new_simulator 10 5 [Car_init 0 (1, 0) ''E''])) (3, 0)) =
        Some \<lparr> NS = ''green'', EW = ''red'' \<rparr>
   \<and> map_option light_state (intersections ((update ^^ 2) (new_simulator 10 5 [Car_init 0 (1, 0) ''E''])) (3, 0)) =
        Some \<lparr> NS = ''green'', EW = ''red'' \<rparr>
   \<and> map_option light_state (intersections ((update ^^ 3) (new_simulator 10 5 [Car_init 0 (1, 0) ''E''])) (3, 0)) =
        Some \<lparr> NS = ''green'', EW = ''red'' \<rparr>
   \<and> map_option light_state (intersections ((update ^^ 4) (new_simulator 10 5 [Car_init 0 (1, 0) ''E''])) (3, 0)) =
        Some \<lparr> NS = ''green'', EW = ''red'' \<rparr>
   \<and> map_option light_state (intersections ((update ^^ 5) (new_simulator 10 5 [Car_init 0 (1, 0) ''E''])) (3, 0)) =
        Some \<lparr> NS = ''red'', EW = ''green'' \<rparr>
   \<and> map_option (\<lambda>x. is_green x ''E'') (intersections ((update ^^ 1) (new_simulator 10 5 [Car_init 0 (1, 0) ''E''])) (3, 0)) =
        Some False
   \<and> map_option (\<lambda>x. is_green x ''E'') (intersections ((update ^^ 2) (new_simulator 10 5 [Car_init 0 (1, 0) ''E''])) (3, 0)) =
        Some False
   \<and> map_option (\<lambda>x. is_green x ''E'') (intersections ((update ^^ 3) (new_simulator 10 5 [Car_init 0 (1, 0) ''E''])) (3, 0)) =
        Some False
   \<and> map_option (\<lambda>x. is_green x ''E'') (intersections ((update ^^ 4) (new_simulator 10 5 [Car_init 0 (1, 0) ''E''])) (3, 0)) =
        Some False
   \<and> map_option (\<lambda>x. is_green x ''E'') (intersections ((update ^^ 5) (new_simulator 10 5 [Car_init 0 (1, 0) ''E''])) (3, 0)) =
        Some True"
proof -
  let ?s = "new_simulator 10 5 [Car_init 0 (1, 0) ''E'']"
  have "map position (cars ?s) = [(1, 0)]" "map direction (cars ?s) = [''E'']"
    by (simp_all add: new_simulator_def Car_init_def)
  moreover have "map position (cars ((update ^^ 1) ?s)) = [(2, 0)]"
    by (simp add: run_simps eval_nat_numeral)
  moreover have "map position (cars ((update ^^ 2) ?s)) = [(2, 0)]"
    by (simp add: run_simps eval_nat_numeral)
  moreover have "map position (cars ((update ^^ 3) ?s)) = [(2, 0)]"
    by (simp add: run_simps eval_nat_numeral)
  moreover have "map position (cars ((update ^^ 4) ?s)) = [(2, 0)]"
    by (simp add: run_simps eval_nat_numeral)
  moreover have "map position (cars ((update ^^ 5) ?s)) = [(3, 0)]"
    by (simp add: run_simps eval_nat_numeral)
  moreover have "map_option light_state (intersections ((update ^^ 1) ?s) (3, 0)) =
        Some \<lparr> NS = ''green'', EW = ''red'' \<rparr>"
    by (simp add: run_simps eval_nat_numeral)
  moreover have "map_option light_state (intersections ((update ^^ 2) ?s) (3, 0)) =
        Some \<lparr> NS = ''green'', EW = ''red'' \<rparr>"
    by (simp add: run_simps eval_nat_numeral)
  moreover have "map_option light_state (intersections ((update ^^ 3) ?s) (3, 0)) =
        Some \<lparr> NS = ''green'', EW = ''red'' \<rparr>"
    by (simp add: run_simps eval_nat_numeral)
  moreover have "map_option light_state (intersections ((update ^^ 4) ?s) (3, 0)) =
        Some \<lparr> NS = ''green'', EW = ''red'' \<rparr>"
    by (simp add: run_simps eval_nat_numeral)
  moreover have "map_option light_state (intersections ((update ^^ 5) ?s) (3, 0)) =
        Some \<lparr> NS = ''red'', EW = ''green'' \<rparr>"
    by (simp add: run_simps eval_nat_numeral)
  moreover have "map_option (\<lambda>x. is_green x ''E'') (intersections ((update ^^ 1) ?s) (3, 0)) =
        Some False"
    by (simp add: run_simps eval_nat_numeral)
  moreover have "map_option (\<lambda>x. is_green x ''E'') (intersections ((update ^^ 2) ?s) (3, 0)) =
        Some False"
    by (simp add: run_simps eval_nat_numeral)
  moreover have "map_option (\<lambda>x. is_green x ''E'') (intersections ((update ^^ 3) ?s) (3, 0)) =
        Some False"
    by (simp add: run_simps eval_nat_numeral)
  moreover have "map_option (\<lambda>x. is_green x ''E'') (intersections ((update ^^ 4) ?s) (3, 0)) =
        Some False"
    by (simp add: run_simps eval_nat_numeral)
  moreover have "map_option (\<lambda>x. is_green x ''E'') (intersections ((update ^^ 5) ?s) (3, 0)) =
        Some True"
    by (simp add: run_simps eval_nat_numeral)
  ultimately show ?thesis
    using scenario_constructed by (intro conjI)
qed

section \<open>Path finding\<close>

lemma Simulator_init_road_network:
  "Simulator_init g n cl rng = Some (Inr s) \<Longrightarrow> road_network s = RoadNetwork_init g"
  by (auto simp: Simulator_init_def new_simulator_def split: option.splits sum.splits)

text \<open>
  C6, as stated: \<open>find_path\<close> from a position to itself returns the one-element path.
  It returns the empty one.
\<close>

theorem find_path_same_cell_not_singleton:
  "find_path (new_simulator 10 5 []) (1, 1) (1, 1) \<noteq> [(1, 1)]"
  by (simp add: find_path_def)

text \<open>
  C6, amended: \<open>find_path\<close> returns the empty sequence for every start and goal, also when
  they are equal; and in an engine built by the constructor no cell is a road cell and no
  cell has a neighbour, so that no two positions are connected by a road path.
\<close>

theorem find_path_always_empty:
  "find_path s start goal = []
   \<and> (Simulator_init g n cl rng = Some (Inr s0)
        \<longrightarrow> \<not> is_road (road_network s0) p \<and> get_neighbors (road_network s0) p = [])"
  by (auto simp: find_path_def get_neighbors_def is_road_def RoadNetwork_init_def
           dest: Simulator_init_road_network)

theorem find_path_always_empty_witness:
  "Simulator_init 3 0 5 (sconst 0) = Some (Inr (new_simulator 3 5 []))
   \<and> find_path (new_simulator 3 5 []) (1, 1) (1, 1) = []
   \<and> \<not> is_road (road_network (new_simulator 3 5 [])) (1, 1)
   \<and> get_neighbors (road_network (new_simulator 3 5 [])) (1, 1) = []"
proof -
  have h: "Simulator_init 3 0 5 (sconst 0) = Some (Inr (new_simulator 3 5 []))"
    by (simp add: Simulator_init_def)
  show ?thesis
    using find_path_always_empty [of "new_simulator 3 5 []" "(1, 1)" "(1, 1)" 3 0 5 "sconst 0"
                                     "new_simulator 3 5 []" "(1, 1)"] h
    by simp
qed


section \<open>The collision check\<close>

lemma claimed_step_car:
  assumes "i < length (fst st)" and "snd st \<subseteq> position ` set (take i (fst st))"
  shows "snd (step_car s i st) \<subseteq> position ` set (take (Suc i) (fst (step_car s i st)))"
proof (cases "admissible s st (fst st ! i)")
  case False
  then have same: "step_car s i st = st" by (simp add: step_car_eq)
  have "set (take i (fst st)) \<subseteq> set (take (Suc i) (fst st))"
    by (simp add: set_take_subset_set_take)
  then have "position ` set (take i (fst st)) \<subseteq> position ` set (take (Suc i) (fst st))"
    by (rule image_mono)
  then show ?thesis using assms(2) unfolding same by (rule order_trans [rotated])
next
  case True
  let ?cs = "(fst st)[i := move (fst st ! i)]"
  have "take (Suc i) ?cs = take i (fst st) @ [move (fst st ! i)]"
    using assms(1) by (simp add: take_Suc_conv_app_nth)
  then show ?thesis
    using True assms(2) by (auto simp: step_car_eq position_move)
qed

lemma claimed_pass:
  "i \<le> length (cars s) \<Longrightarrow> snd (pass s i) \<subseteq> position ` set (take i (fst (pass s i)))"
proof (induction i)
  case 0
  show ?case by (simp add: pass_def)
next
  case (Suc i)
  then have "i < length (fst (pass s i))" by simp
  moreover have "snd (pass s i) \<subseteq> position ` set (take i (fst (pass s i)))"
    using Suc by simp
  ultimately show ?case
    unfolding pass_Suc by (rule claimed_step_car)
qed

lemma drop_pass: "drop i (fst (pass s i)) = drop i (cars s)"
  by (rule nth_equalityI) (simp_all add: pass_nth_later)

lemma collision_pass:
  assumes "i \<le> length (cars s)"
  shows "collision (fst (pass s i)) (snd (pass s i)) p \<longleftrightarrow> p \<in> position ` set (fst (pass s i))"
proof -
  have "set (take i (fst (pass s i))) \<subseteq> set (fst (pass s i))" by (rule set_take_subset)
  then have "position ` set (take i (fst (pass s i))) \<subseteq> position ` set (fst (pass s i))"
    by (rule image_mono)
  then have "snd (pass s i) \<subseteq> position ` set (fst (pass s i))"
    using claimed_pass [OF assms] by (rule order_trans [rotated])
  then show ?thesis
    unfolding collision_iff by blast
qed

lemma car_id_step_car: "map car_id (fst (step_car s i st)) = map car_id (fst st)"
  by (simp add: step_car_eq map_update) (metis car_id_move list_update_id map_update)

lemma car_id_fold_step_car: "map car_id (fst (fold (step_car s) js st)) = map car_id (fst st)"
  by (induction js arbitrary: st) (simp_all add: car_id_step_car)

lemma car_id_update: "map car_id (cars (update s)) = map car_id (cars s)"
  by (simp add: cars_update_pass pass_def car_id_fold_step_car)

lemma car_id_funpow_update: "map car_id (cars ((update ^^ k) s)) = map car_id (cars s)"
  by (induction k) (simp_all add: car_id_update)

lemma place_cars_ids:
  "place_cars g ints ids cs rng = Some (Inr cs') \<Longrightarrow> map car_id cs' = map car_id cs @ ids"
proof (induction ids arbitrary: cs rng)
  case Nil
  then show ?case by simp
next
  case (Cons i ids)
  then show ?case
    by (auto simp: Car_init_def split: option.splits sum.splits prod.splits)
qed

lemma Simulator_init_ids:
  assumes "Simulator_init g n cl rng = Some (Inr s)"
  shows "map car_id (cars s) = map int [0..<nat n]"
  using assms place_cars_ids [of g "place_intersections g cl" "map int [0..<nat n]" "[]" rng]
  by (auto simp: Simulator_init_def new_simulator_def split: option.splits sum.splits)

text \<open>
  C2, amended. The cars are evaluated in the order of the list \<open>cars\<close>, each on the loop
  state that the cars before it have left; in an engine built by the constructor, and after
  any number of calls of \<open>update\<close>, that is the order of ascending id. When the car at
  index \<open>i\<close> is evaluated, the collision check rejects a candidate exactly when it is the
  current position of some car of the list: every claimed position is the position of a
  car evaluated earlier, and besides these the list holds the cars evaluated earlier that
  stayed in place and the cars from index \<open>i\<close> on (the car itself among them), which
  are still as they were before the pass.
\<close>

theorem collision_check_reads_every_car:
  "(Simulator_init g n cl rng = Some (Inr s0)
      \<longrightarrow> map car_id (cars ((update ^^ k) s0)) = map int [0..<nat n])
   \<and> cars (update s) = fst (pass (update_lights s) (length (cars s)))
   \<and> pass s' (Suc i) = step_car s' i (pass s' i)
   \<and> (i \<le> length (cars s')
        \<longrightarrow> (collision (fst (pass s' i)) (snd (pass s' i)) p
               \<longleftrightarrow> p \<in> position ` set (fst (pass s' i)))
          \<and> snd (pass s' i) \<subseteq> position ` set (take i (fst (pass s' i)))
          \<and> drop i (fst (pass s' i)) = drop i (cars s'))"
  using Simulator_init_ids [of g n cl rng s0] car_id_funpow_update [of k s0]
    cars_update_pass [of s] pass_Suc [of s' i] collision_pass [of i s' p]
    claimed_pass [of i s'] drop_pass [of i s']
  by simp

lemma blocked_constructed:
  "Simulator_init 10 2 5 (1 ## 0 ## 0 ## 2 ## 0 ## 3 ## sconst 0) =
     Some (Inr (new_simulator 10 5 [Car_init 0 (1, 0) ''N'', Car_init 1 (2, 0) ''W'']))"
  apply (simp add: Simulator_init_def upt_rec)
  apply (subst place_loop.simps)
  apply (simp add: randint_def choice_def place_intersections_apply)
  apply (subst place_loop.simps)
  apply (simp add: randint_def choice_def place_intersections_apply Car_init_def)
  done

text \<open>
  C2, as stated: a candidate is rejected by the collision check exactly when it is already
  claimed or is the position of a car not yet evaluated. In the engine below car 0 (heading
  North from \<open>(1, 0)\<close>) is evaluated first and stays, its candidate being out of bounds;
  the candidate of car 1 is \<open>(1, 0)\<close>: no car has claimed it and no car is left to be
  evaluated, yet the collision check rejects it, and car 1 stays at \<open>(2, 0)\<close>.
\<close>

theorem collision_check_not_as_stated:
  "Simulator_init 10 2 5 (1 ## 0 ## 0 ## 2 ## 0 ## 3 ## sconst 0) =
     Some (Inr (new_simulator 10 5 [Car_init 0 (1, 0) ''N'', Car_init 1 (2, 0) ''W'']))
   \<and> get_next_position (fst (pass (update_lights (new_simulator 10 5 [Car_init 0 (1, 0) ''N'', Car_init 1 (2, 0) ''W''])) 1) ! 1) = (1, 0)
   \<and> collision (fst (pass (update_lights (new_simulator 10 5 [Car_init 0 (1, 0) ''N'', Car_init 1 (2, 0) ''W''])) 1))
        (snd (pass (update_lights (new_simulator 10 5 [Car_init 0 (1, 0) ''N'', Car_init 1 (2, 0) ''W''])) 1)) (1, 0)
   \<and> \<not> spec_collision_check (fst (pass (update_lights (new_simulator 10 5 [Car_init 0 (1, 0) ''N'', Car_init 1 (2, 0) ''W''])) 1))
        (snd (pass (update_lights (new_simulator 10 5 [Car_init 0 (1, 0) ''N'', Car_init 1 (2, 0) ''W''])) 1)) 1 (1, 0)
   \<and> map position (cars (update (new_simulator 10 5 [Car_init 0 (1, 0) ''N'', Car_init 1 (2, 0) ''W'']))) = [(1, 0), (2, 0)]"
  by (rule conjI [OF blocked_constructed]) (simp add: run_simps spec_collision_check_def)

theorem collision_check_reads_every_car_witness:
  "Simulator_init 10 2 5 (1 ## 0 ## 0 ## 2 ## 0 ## 3 ## sconst 0) =
     Some (Inr (new_simulator 10 5 [Car_init 0 (1, 0) ''N'', Car_init 1 (2, 0) ''W'']))
   \<and> map car_id (cars ((update ^^ 1)
        (new_simulator 10 5 [Car_init 0 (1, 0) ''N'', Car_init 1 (2, 0) ''W'']))) = [0, 1]
   \<and> 1 \<le> length (cars (update_lights
        (new_simulator 10 5 [Car_init 0 (1, 0) ''N'', Car_init 1 (2, 0) ''W''])))
   \<and> (1, 0) \<in> position ` set (fst (pass (update_lights
        (new_simulator 10 5 [Car_init 0 (1, 0) ''N'', Car_init 1 (2, 0) ''W''])) 1))
   \<and> collision
        (fst (pass (update_lights
          (new_simulator 10 5 [Car_init 0 (1, 0) ''N'', Car_init 1 (2, 0) ''W''])) 1))
        (snd (pass (update_lights
          (new_simulator 10 5 [Car_init 0 (1, 0) ''N'', Car_init 1 (2, 0) ''W''])) 1)) (1, 0)"
proof -
  let ?s = "new_simulator 10 5 [Car_init 0 (1, 0) ''N'', Car_init 1 (2, 0) ''W'']"
  let ?rng = "1 ## 0 ## 0 ## 2 ## 0 ## 3 ## sconst 0"
  have h1: "Simulator_init 10 2 5 ?rng = Some (Inr ?s)" by (rule blocked_constructed)
  have h2: "1 \<le> length (cars (update_lights ?s))" by (simp add: new_simulator_def)
  have m: "(1, 0) \<in> position ` set (fst (pass (update_lights ?s) 1))"
    by (simp add: run_simps)
  have ids: "map int [0..<nat 2] = [0, 1]" by (simp add: upt_rec)
  note t = collision_check_reads_every_car [of 10 2 5 ?rng ?s 1 ?s "update_lights ?s" 1 "(1, 0)"]
  have "map car_id (cars ((update ^^ 1) ?s)) = map int [0..<nat 2]"
    by (rule mp [OF conjunct1 [OF t] h1])
  then have i: "map car_id (cars ((update ^^ 1) ?s)) = [0, 1]"
    by (simp only: ids)
  have "collision (fst (pass (update_lights ?s) 1)) (snd (pass (update_lights ?s) 1)) (1, 0)
          \<longleftrightarrow> (1, 0) \<in> position ` set (fst (pass (update_lights ?s) 1))"
    by (rule conjunct1 [OF mp [OF conjunct2 [OF conjunct2 [OF conjunct2 [OF t]]] h2]])
  then have c: "collision (fst (pass (update_lights ?s) 1)) (snd (pass (update_lights ?s) 1)) (1, 0)"
    using m by (rule iffD2)
  show ?thesis using h1 i h2 m c by (intro conjI)
qed

section \<open>Construction\<close>

lemma set_int_upt: "set (map int [0..<nat g]) = {x. 0 \<le> x \<and> x < g}"
proof (intro set_eqI iffI)
  fix x assume "x \<in> set (map int [0..<nat g])"
  then show "x \<in> {x. 0 \<le> x \<and> x < g}" by auto
next
  fix x assume "x \<in> {x. 0 \<le> x \<and> x < g}"
  then have "x = int (nat x)" "nat x < nat g" by simp_all
  then show "x \<in> set (map int [0..<nat g])"
    by (metis atLeast0LessThan image_eqI lessThan_iff list.set_map set_upt)
qed

lemma set_free_cells:
  "set (free_cells g ints) = {(x, y). 0 \<le> x \<and> x < g \<and> 0 \<le> y \<and> y < g \<and> ints (x, y) = None}"
  unfolding free_cells_def set_filter set_product set_int_upt by auto

lemma distinct_free_cells: "distinct (free_cells g ints)"
  unfolding free_cells_def
  by (intro distinct_filter distinct_product) (simp_all add: distinct_map inj_on_def)

lemma randint_range:
  assumes "1 \<le> g"
  shows "\<exists>x. randint 0 (g - 1) r = Inr x \<and> 0 \<le> x \<and> x < g"
  using assms by (simp add: randint_def)

lemma place_loop_result:
  "place_loop g ints cs rng = Some r \<Longrightarrow>
   1 \<le> g \<longrightarrow> (\<exists>p rng'. r = Inr (p, rng') \<and> p \<in> set (free_cells g ints)
                          \<and> p \<notin> position ` set cs)"
proof (induct rule: place_loop.raw_induct [rotated 1, consumes 1, case_names step])
  case (step place_loop g ints cs rng r)
  show ?case
  proof
    assume g: "1 \<le> g"
    obtain x where x: "randint 0 (g - 1) (shd rng) = Inr x" "0 \<le> x" "x < g"
      using randint_range [OF g] by blast
    obtain y where y: "randint 0 (g - 1) (shd (stl rng)) = Inr y" "0 \<le> y" "y < g"
      using randint_range [OF g] by blast
    show "\<exists>p rng'. r = Inr (p, rng') \<and> p \<in> set (free_cells g ints) \<and> p \<notin> position ` set cs"
    proof (cases "ints (x, y) = None \<and> list_all (\<lambda>car. position car \<noteq> (x, y)) cs")
      case True
      then have "r = Inr ((x, y), stl (stl rng))"
        using step(2) x y by simp
      moreover have "(x, y) \<in> set (free_cells g ints)"
        using True x y by (simp add: set_free_cells)
      moreover have "(x, y) \<notin> position ` set cs"
        using True by (auto simp: list_all_iff)
      ultimately show ?thesis by blast
    next
      case False
      then have "place_loop g ints cs (stl (stl rng)) = Some r"
        using step(2) x y by auto
      then show ?thesis using step(1) g by blast
    qed
  qed
qed

lemma place_loop_empty_range:
  "g \<le> 0 \<Longrightarrow> place_loop g ints cs rng = Some (Inl ValueError)"
  by (subst place_loop.simps) (simp add: randint_def)

lemma place_cars_result:
  assumes "1 \<le> g"
    and "place_cars g ints ids cs rng = Some r"
    and "distinct (map position cs)"
    and "position ` set cs \<subseteq> set (free_cells g ints)"
  shows "\<exists>cs'. r = Inr cs' \<and> distinct (map position cs')
               \<and> position ` set cs' \<subseteq> set (free_cells g ints)
               \<and> length cs' = length cs + length ids"
  using assms(2-4)
proof (induction ids arbitrary: cs rng)
  case Nil
  then show ?case by auto
next
  case (Cons i ids)
  from Cons.prems(1) obtain q where q: "place_loop g ints cs rng = Some q"
    by (auto split: option.splits)
  then obtain p rng1 where p: "q = Inr (p, rng1)" "p \<in> set (free_cells g ints)"
      "p \<notin> position ` set cs"
    using place_loop_result [OF q] assms(1) by blast
  let ?car = "Car_init i p (choice [''N'', ''S'', ''E'', ''W''] (shd rng1))"
  have pos: "position ?car = p" by (simp add: Car_init_def)
  have rec: "place_cars g ints ids (cs @ [?car]) (stl rng1) = Some r"
    using Cons.prems(1) q p(1) by simp
  have d: "distinct (map position (cs @ [?car]))"
    using Cons.prems(2) p(3) by (simp add: pos)
  have f: "position ` set (cs @ [?car]) \<subseteq> set (free_cells g ints)"
    using Cons.prems(3) p(2) by (simp add: pos)
  show ?case
    using Cons.IH [OF rec d f] by simp
qed

lemma Simulator_init_no_cars:
  "n \<le> 0 \<Longrightarrow> Simulator_init g n cl rng = Some (Inr (new_simulator g cl []))"
  by (simp add: Simulator_init_def)

lemma Simulator_init_empty_range:
  assumes "g \<le> 0" and "1 \<le> n"
  shows "Simulator_init g n cl rng = Some (Inl ValueError)"
proof -
  have "[0..<nat n] = 0 # [1..<nat n]"
    using assms(2) by (simp add: upt_conv_Cons)
  then show ?thesis
    using assms(1) by (simp add: Simulator_init_def place_loop_empty_range)
qed

lemma Simulator_init_result:
  assumes "1 \<le> g" and "Simulator_init g n cl rng = Some r"
  shows "\<exists>cs. r = Inr (new_simulator g cl cs) \<and> distinct (map position cs)
              \<and> position ` set cs \<subseteq> set (free_cells g (place_intersections g cl))
              \<and> length cs = nat n"
proof -
  obtain q where
    q: "place_cars g (place_intersections g cl) (map int [0..<nat n]) [] rng = Some q"
    using assms(2)
    by (cases "place_cars g (place_intersections g cl) (map int [0..<nat n]) [] rng")
       (simp_all add: Simulator_init_def)
  have e: "distinct (map position ([] :: Car list))"
    "position ` set ([] :: Car list) \<subseteq> set (free_cells g (place_intersections g cl))"
    by simp_all
  obtain cs where cs: "q = Inr cs" "distinct (map position cs)"
      "position ` set cs \<subseteq> set (free_cells g (place_intersections g cl))"
      "length cs = length ([] :: Car list) + length (map int [0..<nat n])"
    using place_cars_result [OF assms(1) q e] by blast
  have len: "length cs = nat n" using cs(4) by simp
  have "r = Inr (new_simulator g cl cs)"
    using assms(2) q cs(1) by (simp add: Simulator_init_def)
  then show ?thesis using cs(2,3) len by blast
qed

text \<open>
  More cars than free cells: the loop that draws positions never ends, for any draws.
\<close>

lemma Simulator_init_overfull:
  assumes "1 \<le> g" and "int (length (free_cells g (place_intersections g cl))) < n"
  shows "Simulator_init g n cl rng = None"
proof (cases "Simulator_init g n cl rng")
  case None
  then show ?thesis .
next
  case (Some r)
  let ?free = "free_cells g (place_intersections g cl)"
  from Simulator_init_result [OF assms(1) Some]
  obtain cs :: "Car list" where cs: "distinct (map position cs)"
      "position ` set cs \<subseteq> set ?free" "length cs = nat n"
    by blast
  have "card (set (map position cs)) = length (map position cs)"
    using cs(1) by (rule distinct_card)
  then have "length cs = card (position ` set cs)" by simp
  also have "\<dots> \<le> card (set ?free)"
    using cs(2) by (rule card_mono [rotated]) simp
  also have "\<dots> \<le> length ?free" by (rule card_length)
  finally have "nat n \<le> length ?free" unfolding cs(3) .
  then have False using assms(2) by linarith
  then show ?thesis ..
qed

text \<open>
  C7, amended. The constructor checks none of its arguments and has no error of its own.
  With a car count of zero or less it returns an engine, whatever the grid size and the
  cycle length. With a grid size of zero or less and at least one car it raises the
  \<open>ValueError\<close> of \<open>random.randint\<close>. With a grid size of at least one, whenever it
  returns it returns an engine, with the cycle length as given (positive or not) and the
  cars on pairwise distinct cells that hold no intersection.
\<close>

theorem construction_validates_nothing:
  "(n \<le> 0 \<longrightarrow> Simulator_init g n cl rng = Some (Inr (new_simulator g cl [])))
   \<and> (g \<le> 0 \<and> 1 \<le> n \<longrightarrow> Simulator_init g n cl rng = Some (Inl ValueError))
   \<and> (1 \<le> g \<and> Simulator_init g n cl rng = Some r
        \<longrightarrow> (\<exists>cs. r = Inr (new_simulator g cl cs) \<and> length cs = nat n
                  \<and> distinct (map position cs)
                  \<and> position ` set cs \<subseteq> set (free_cells g (place_intersections g cl))))"
proof (intro conjI impI)
  assume "n \<le> 0"
  then show "Simulator_init g n cl rng = Some (Inr (new_simulator g cl []))"
    by (rule Simulator_init_no_cars)
next
  assume "g \<le> 0 \<and> 1 \<le> n"
  then show "Simulator_init g n cl rng = Some (Inl ValueError)"
    by (simp add: Simulator_init_empty_range)
next
  assume "1 \<le> g \<and> Simulator_init g n cl rng = Some r"
  then have "1 \<le> g" "Simulator_init g n cl rng = Some r" by simp_all
  from Simulator_init_result [OF this]
  show "\<exists>cs. r = Inr (new_simulator g cl cs) \<and> length cs = nat n
          \<and> distinct (map position cs)
          \<and> position ` set cs \<subseteq> set (free_cells g (place_intersections g cl))"
    by blast
qed

lemma zero_cycle_constructed:
  "Simulator_init 10 1 0 (1 ## 0 ## 2 ## sconst 0) =
     Some (Inr (new_simulator 10 0 [Car_init 0 (1, 0) ''E'']))"
  apply (simp add: Simulator_init_def)
  apply (subst place_loop.simps)
  apply (simp add: randint_def choice_def place_intersections_apply)
  done

lemma free_cells_1: "free_cells 1 (place_intersections 1 5) = []"
  by (simp add: free_cells_def place_intersections_apply)

text \<open>
  C7, as stated: a non-positive cycle length, a non-positive grid size, or more cars than
  free cells make construction fail with an error. A cycle length of 0 and a grid size of
  0 are accepted; and on the grid of size 1, whose only cell holds an intersection,
  construction with one car does not return at all.
\<close>

theorem construction_accepts_bad_configuration:
  "Simulator_init 10 1 0 (1 ## 0 ## 2 ## sconst 0) =
     Some (Inr (new_simulator 10 0 [Car_init 0 (1, 0) ''E'']))
   \<and> Simulator_init 0 0 5 (sconst 0) = Some (Inr (new_simulator 0 5 []))
   \<and> length (free_cells 1 (place_intersections 1 5)) = 0
   \<and> Simulator_init 1 1 5 (sconst 0) = None"
proof -
  have "Simulator_init 0 0 5 (sconst 0) = Some (Inr (new_simulator 0 5 []))"
    by (simp add: Simulator_init_def)
  moreover have "Simulator_init 1 1 5 (sconst 0) = None"
    by (rule Simulator_init_overfull) (simp_all add: free_cells_1)
  ultimately show ?thesis
    using zero_cycle_constructed free_cells_1 by simp
qed

theorem construction_validates_nothing_witness:
  "Simulator_init 3 0 0 (sconst 0) = Some (Inr (new_simulator 3 0 []))
   \<and> Simulator_init 0 1 5 (sconst 0) = Some (Inl ValueError)
   \<and> Simulator_init 10 1 0 (1 ## 0 ## 2 ## sconst 0) =
        Some (Inr (new_simulator 10 0 [Car_init 0 (1, 0) ''E'']))
   \<and> (1, 0) \<in> set (free_cells 10 (place_intersections 10 0))"
proof -
  have a: "Simulator_init 3 0 0 (sconst 0) = Some (Inr (new_simulator 3 0 []))"
    by (rule mp [OF conjunct1 [OF construction_validates_nothing [of 0 3 0 "sconst 0"]]]) simp
  have b: "Simulator_init 0 1 5 (sconst 0) = Some (Inl ValueError)"
    by (rule mp [OF conjunct1 [OF conjunct2
          [OF construction_validates_nothing [of 1 0 5 "sconst 0"]]]]) simp
  let ?s = "new_simulator 10 0 [Car_init 0 (1, 0) ''E'']"
  have h: "(1::int) \<le> 10 \<and> Simulator_init 10 1 0 (1 ## 0 ## 2 ## sconst 0) = Some (Inr ?s)"
    using zero_cycle_constructed by simp
  from mp [OF conjunct2 [OF conjunct2
          [OF construction_validates_nothing [of 1 10 0 "1 ## 0 ## 2 ## sconst 0" "Inr ?s"]]] h]
  obtain cs :: "Car list" where cs: "(Inr ?s :: error + Simulator) = Inr (new_simulator 10 0 cs)"
      "position ` set cs \<subseteq> set (free_cells 10 (place_intersections 10 0))"
    by blast
  from cs(1) have "?s = new_simulator 10 0 cs" by (simp only: sum.inject)
  then have "cars ?s = cars (new_simulator 10 0 cs)" by (rule arg_cong)
  then have "cs = [Car_init 0 (1, 0) ''E'']" by (simp add: new_simulator_def)
  then have c: "(1, 0) \<in> set (free_cells 10 (place_intersections 10 0))"
    using cs(2) by (simp add: Car_init_def)
  show ?thesis using a b conjunct2 [OF h] c by (intro conjI)
qed

end
